theory Spec2Isabelle
  imports Complex_Main "HOL-Library.Word" "HOL-Library.Log_Nat"
begin

section \<open>Values of the request and of the store\<close>

text \<open>
  \<open>Server.js\<close> receives JSON bodies (\<open>bodyParser.json()\<close>) and binds their fields, as
  they are, to the parameters of its SQL statements. A body field is therefore any JSON
  value, or \<open>undefined\<close> when the field is absent. \<open>JNum\<close> carries a finite number.
\<close>

datatype jsval =
    JUndefined
  | JNull
  | JBool bool
  | JNum rat
  | JStr string
  | JArr "jsval list"
  | JObj "(string \<times> jsval) list"

text \<open>JavaScript's ToBoolean, which \<open>!name\<close> negates.\<close>

fun truthy :: "jsval \<Rightarrow> bool" where
  "truthy JUndefined = False"
| "truthy JNull = False"
| "truthy (JBool b) = b"
| "truthy (JNum n) = (n \<noteq> 0)"
| "truthy (JStr s) = (s \<noteq> [])"
| "truthy (JArr xs) = True"
| "truthy (JObj kvs) = True"

type_synonym body = "string \<rightharpoonup> jsval"

text \<open>Reading a property of \<open>req.body\<close>: an absent property reads as \<open>undefined\<close>.\<close>

definition body_field :: "body \<Rightarrow> string \<Rightarrow> jsval" where
  "body_field b k = (case b k of None \<Rightarrow> JUndefined | Some v \<Rightarrow> v)"

type_synonym bytes = "8 word list"

subsection \<open>Tables\<close>

text \<open>
  The rows carry the columns that the INSERT statements of \<open>Server.js\<close> name, holding
  the values that were bound to them.
\<close>

record user =
  u_name :: jsval
  u_email :: jsval
  u_password :: jsval

record otp =
  o_email :: jsval
  o_otp :: jsval
  o_expires_at :: int

record enrollment =
  e_name :: jsval
  e_email :: jsval
  e_phone :: jsval
  e_status :: jsval
  e_course_id :: jsval

record registration =
  r_name :: jsval
  r_email :: jsval
  r_phone :: jsval
  r_current_status :: jsval
  r_workshop_title :: jsval

record mentor_application =
  m_name :: jsval
  m_email :: jsval
  m_phone :: jsval
  m_expertise :: jsval
  m_experience :: jsval
  m_message :: jsval
  m_resume :: string

record testimonial =
  t_name :: jsval
  t_role :: jsval
  t_review :: jsval
  t_verified :: jsval

record demo_request =
  d_name :: jsval
  d_email :: jsval
  d_phone :: jsval
  d_status :: jsval
  d_course :: jsval
  d_message :: jsval

record 'r table =
  rows :: "(nat \<times> 'r) list"
  auto_increment :: nat

text \<open>
  Modelled from the spec: the declarations of the tables (the schema) are not in the
  source. The spec has every insert answer with the inserted id, a positive number
  (\<open>201 + insertId\<close>, "a positive insertId"); the model gives each table an
  auto-increment counter, and an insert appends the row under the next id and returns
  that id, as \<open>result.insertId\<close>.
\<close>

definition insert_row :: "'r \<Rightarrow> 'r table \<Rightarrow> nat \<times> 'r table" where
  "insert_row r t =
     (let i = Suc (auto_increment t)
      in (i, t\<lparr>rows := rows t @ [(i, r)], auto_increment := i\<rparr>))"

subsection \<open>Mail, console and the state of the server\<close>

text \<open>
  A mail is its recipient, the template of its subject and HTML text, and the values
  interpolated into the template, in the order of the source.
\<close>

datatype template =
    NewEnrollment
  | EnrollmentSuccessful
  | YourOtpCode
  | NewWorkshopRegistration
  | RegisteredFor
  | NewDemoRequest
  | DemoRequestReceived

record mail =
  mail_to :: jsval
  mail_template :: template
  mail_values :: "jsval list"

text \<open>
  What reaches a \<open>catch\<close> or the framework: a rejected \<open>db.query\<close>, the use of
  an identifier that the module does not bind, and the two errors of the upload
  middleware (\<open>new Error("Invalid file type")\<close> of the file filter, and multer's
  LIMIT_FILE_SIZE).
\<close>

datatype exn =
    StoreError
  | ReferenceError string
  | InvalidFileType
  | LimitFileSize

datatype logline =
    SkippingEmail jsval
  | FailedToSendEmail jsval
  | Caught exn

record world =
  users :: "user table"
  user_otps :: "otp table"
  enrollments :: "enrollment table"
  registrations :: "registration table"
  mentor_applications :: "mentor_application table"
  testimonials :: "testimonial table"
  demo_requests :: "demo_request table"
  uploads :: "string \<rightharpoonup> bytes"
  outbox :: "mail list"
  console :: "logline list"

text \<open>The statements the handlers issue, named after what they are in the source.\<close>

datatype stmt =
    InsertEnrollment
  | SelectUserByEmail
  | InsertUser
  | SelectUserByCredentials
  | InsertOtp
  | SelectOtp
  | DeleteOtps
  | InsertRegistration
  | InsertMentorApplication
  | InsertTestimonial
  | InsertDemoRequest

text \<open>
  What one request meets outside the process: the reading of the clock
  (\<open>Date.now()\<close>, and \<open>NOW()\<close> in the store), the value of \<open>Math.random()\<close>, which
  statements the store rejects, whether \<open>transporter\<close> is non-null, which mails the
  transport rejects, and how the store compares a column with a bound value in a
  \<open>WHERE column = ?\<close> (the collation and the column types belong to the schema, which is
  not in the source, so the comparison is a parameter).
\<close>

record env =
  clock :: int
  math_random :: rat
  query_fails :: "stmt \<Rightarrow> bool"
  transporter :: bool
  send_fails :: "mail \<Rightarrow> bool"
  sql_eq :: "jsval \<Rightarrow> jsval \<Rightarrow> bool"
  rejects_at_limit :: bool

record response =
  status_code :: nat
  payload :: "(string \<times> jsval) list"

definition res_json :: "nat \<Rightarrow> (string \<times> jsval) list \<Rightarrow> response" where
  "res_json code kvs = \<lparr>status_code = code, payload = kvs\<rparr>"

definition console_log :: "logline \<Rightarrow> world \<Rightarrow> world" where
  "console_log l w = w\<lparr>console := console w @ [l]\<rparr>"

section \<open>The notifier\<close>

text \<open>
  \<open>sendMailSafe\<close> (lines 71-86): without a transporter it warns and returns; a send
  that fails is caught and logged. It never throws.
\<close>

definition sendMailSafe :: "env \<Rightarrow> jsval \<Rightarrow> template \<Rightarrow> jsval list \<Rightarrow> world \<Rightarrow> world" where
  "sendMailSafe env to t vs w =
     (if \<not> transporter env then console_log (SkippingEmail to) w
      else if send_fails env \<lparr>mail_to = to, mail_template = t, mail_values = vs\<rparr>
      then console_log (FailedToSendEmail to) w
      else w\<lparr>outbox := outbox w @ [\<lparr>mail_to = to, mail_template = t, mail_values = vs\<rparr>]\<rparr>)"

text \<open>
  \<open>sendMail\<close>: the login, register and demo-request handlers call \<open>sendMail(...)\<close>, and
  the module binds no such identifier (it declares \<open>sendMailSafe\<close> only, and no
  \<open>require\<close> provides one). Evaluating the call throws a ReferenceError inside the
  handler's \<open>try\<close>.
\<close>

definition sendMail :: "jsval \<Rightarrow> template \<Rightarrow> jsval list \<Rightarrow> world \<Rightarrow> exn + world" where
  "sendMail to t vs w = Inl (ReferenceError ''sendMail is not defined'')"

section \<open>Enroll\<close>

text \<open>\<open>POST /api/enroll\<close> (lines 116-155).\<close>

definition admin_address :: jsval where
  "admin_address = JStr ''deeplearneracademy@gmail.com''"

definition enroll :: "env \<Rightarrow> body \<Rightarrow> world \<Rightarrow> response \<times> world" where
  "enroll env b w =
     (let name = body_field b ''name'';
          email = body_field b ''email'';
          phone = body_field b ''phone'';
          status = (case body_field b ''status'' of JUndefined \<Rightarrow> JStr ''Pending'' | v \<Rightarrow> v);
          courseId = body_field b ''courseId''
      in if \<not> truthy name \<or> \<not> truthy email \<or> \<not> truthy phone \<or> \<not> truthy courseId
         then (res_json 400 [(''success'', JBool False),
                             (''message'', JStr ''All fields are required'')], w)
         else if query_fails env InsertEnrollment
         then (res_json 500 [(''success'', JBool False),
                             (''message'', JStr ''Server error, please try again later'')],
               console_log (Caught StoreError) w)
         else
           let (insertId, t) = insert_row \<lparr>e_name = name, e_email = email, e_phone = phone,
                                            e_status = status, e_course_id = courseId\<rparr>
                                 (enrollments w);
               w1 = w\<lparr>enrollments := t\<rparr>;
               w2 = sendMailSafe env admin_address NewEnrollment
                      [name, courseId, email, phone, status] w1;
               w3 = sendMailSafe env email EnrollmentSuccessful [name, courseId] w2
           in (res_json 201 [(''success'', JBool True),
                             (''message'', JStr ''Enrollment successful, confirmation email sent''),
                             (''enrollmentId'', JNum (of_nat insertId))], w3))"

section \<open>Users: signup, login, verify-otp\<close>

text \<open>
  \<open>Number.prototype.toString()\<close> of an integer: its decimal digits, with a minus sign
  below zero (the notation of every integer below \<open>10^21\<close> in magnitude).
\<close>

definition digit_char :: "nat \<Rightarrow> char" where
  "digit_char d = ''0123456789'' ! d"

fun digits10 :: "nat \<Rightarrow> string" where
  "digits10 n = (if n < 10 then [digit_char n] else digits10 (n div 10) @ [digit_char (n mod 10)])"

definition number_toString :: "int \<Rightarrow> string" where
  "number_toString i = (if i < 0 then CHR ''-'' # digits10 (nat (- i)) else digits10 (nat i))"

text \<open>\<open>POST /api/signup\<close> (lines 168-184).\<close>

definition signup :: "env \<Rightarrow> body \<Rightarrow> world \<Rightarrow> response \<times> world" where
  "signup env b w =
     (let name = body_field b ''name'';
          email = body_field b ''email'';
          password = body_field b ''password''
      in if query_fails env SelectUserByEmail
         then (res_json 500 [(''message'', JStr ''Server error'')], console_log (Caught StoreError) w)
         else
           let existing = filter (\<lambda>(i, u). sql_eq env (u_email u) email) (rows (users w))
           in if length existing > 0
              then (res_json 400 [(''message'', JStr ''User already exists'')], w)
              else if query_fails env InsertUser
              then (res_json 500 [(''message'', JStr ''Server error'')],
                    console_log (Caught StoreError) w)
              else
                let (insertId, t) = insert_row \<lparr>u_name = name, u_email = email,
                                                 u_password = password\<rparr> (users w)
                in (res_json 200 [(''message'', JStr ''Signup successful!'')], w\<lparr>users := t\<rparr>))"

text \<open>
  The numbers of the source are IEEE 754 doubles, and every arithmetic operation rounds
  its exact result to the nearest double, ties to the even significand. \<open>to_double\<close>
  is that rounding on the rationals of magnitude below \<open>2^1024\<close>: \<open>exponent x\<close> is the
  \<open>e\<close> with \<open>2^e \<le> x < 2^(e+1)\<close>, the quantum of the doubles there is \<open>2^(e-52)\<close>
  (and \<open>2^-1074\<close> for the subnormal numbers below \<open>2^-1022\<close>), and the exact value is
  rounded to a multiple of the quantum. A double is a rational that rounds to itself.
\<close>

definition exponent :: "rat \<Rightarrow> int" where
  "exponent x =
     (if 1 \<le> x then int (floorlog 2 (nat \<lfloor>x\<rfloor>)) - 1
      else - int (floorlog 2 (nat (\<lceil>1 / x\<rceil> - 1))))"

definition roundTiesToEven :: "rat \<Rightarrow> int" where
  "roundTiesToEven y =
     (let f = \<lfloor>y\<rfloor>; d = y - of_int f
      in if d < 1 / 2 then f else if 1 / 2 < d then f + 1 else if even f then f else f + 1)"

definition to_double :: "rat \<Rightarrow> rat" where
  "to_double x =
     (if x = 0 then 0
      else
        let e = max (exponent \<bar>x\<bar>) (- 1022);
            q = 2 powi (e - 52)
        in sgn x * of_int (roundTiesToEven (\<bar>x\<bar> / q)) * q)"

definition is_double :: "rat \<Rightarrow> bool" where
  "is_double x = (to_double x = x)"

text \<open>
  \<open>POST /api/login\<close> (lines 188-211). The code is
  \<open>Math.floor(100000 + Math.random() * 900000).toString()\<close>: the product is rounded,
  the sum is rounded, and the floor of a double is exact. The expiry is
  \<open>new Date(Date.now() + 10 * 60 * 1000)\<close>, kept as its time value in milliseconds
  (\<open>Date.now()\<close> is an integer of magnitude below \<open>2^53\<close>, where the sum of doubles is
  exact).
\<close>

definition login :: "env \<Rightarrow> body \<Rightarrow> world \<Rightarrow> response \<times> world" where
  "login env b w =
     (let email = body_field b ''email'';
          password = body_field b ''password''
      in if query_fails env SelectUserByCredentials
         then (res_json 500 [(''message'', JStr ''Server error'')], console_log (Caught StoreError) w)
         else
           let found = filter (\<lambda>(i, u). sql_eq env (u_email u) email
                                         \<and> sql_eq env (u_password u) password) (rows (users w))
           in if length found = 0
              then (res_json 400 [(''message'', JStr ''Invalid email or password'')], w)
              else
                let otp = number_toString \<lfloor>to_double (100000 + to_double (math_random env * 900000))\<rfloor>;
                    expiresAt = clock env + 10 * 60 * 1000
                in if query_fails env InsertOtp
                   then (res_json 500 [(''message'', JStr ''Server error'')],
                         console_log (Caught StoreError) w)
                   else
                     let (insertId, t) = insert_row \<lparr>o_email = email, o_otp = JStr otp,
                                                      o_expires_at = expiresAt\<rparr> (user_otps w);
                         w1 = w\<lparr>user_otps := t\<rparr>
                     in case sendMail email YourOtpCode [JStr otp] w1 of
                          Inl e \<Rightarrow> (res_json 500 [(''message'', JStr ''Server error'')],
                                    console_log (Caught e) w1)
                        | Inr w2 \<Rightarrow> (res_json 200 [(''message'', JStr ''OTP sent to your email'')], w2))"

text \<open>
  A row of \<open>SELECT * FROM users\<close> as the object that \<open>res.json\<close> serialises: every
  column of the row, the password among them.
\<close>

definition user_row_json :: "nat \<times> user \<Rightarrow> jsval" where
  "user_row_json r =
     JObj [(''id'', JNum (of_nat (fst r))), (''name'', u_name (snd r)),
           (''email'', u_email (snd r)), (''password'', u_password (snd r))]"

text \<open>
  \<open>POST /api/verify-otp\<close> (lines 214-239). \<open>users[0]\<close> of an empty result is
  \<open>undefined\<close>.
\<close>

definition verify_otp :: "env \<Rightarrow> body \<Rightarrow> world \<Rightarrow> response \<times> world" where
  "verify_otp env b w =
     (let email = body_field b ''email'';
          otp = body_field b ''otp''
      in if query_fails env SelectOtp
         then (res_json 500 [(''message'', JStr ''Server error'')], console_log (Caught StoreError) w)
         else
           let found = filter (\<lambda>(i, r). sql_eq env (o_email r) email \<and> sql_eq env (o_otp r) otp
                                         \<and> o_expires_at r > clock env) (rows (user_otps w))
           in if length found = 0
              then (res_json 400 [(''message'', JStr ''Invalid or expired OTP'')], w)
              else if query_fails env DeleteOtps
              then (res_json 500 [(''message'', JStr ''Server error'')],
                    console_log (Caught StoreError) w)
              else
                let w1 = w\<lparr>user_otps := (user_otps w)
                            \<lparr>rows := filter (\<lambda>(i, r). \<not> sql_eq env (o_email r) email)
                                       (rows (user_otps w))\<rparr>\<rparr>
                in if query_fails env SelectUserByEmail
                   then (res_json 500 [(''message'', JStr ''Server error'')],
                         console_log (Caught StoreError) w1)
                   else
                     let selected = filter (\<lambda>(i, u). sql_eq env (u_email u) email) (rows (users w1));
                         user = (case selected of [] \<Rightarrow> JUndefined | r # _ \<Rightarrow> user_row_json r);
                         token = JStr ''FAKE-JWT-TOKEN''
                     in (res_json 200 [(''message'', JStr ''Login successful''),
                                       (''token'', token), (''user'', user)], w1))"

section \<open>Workshops: register\<close>

text \<open>\<open>POST /api/register\<close> (lines 251-282).\<close>

definition register :: "env \<Rightarrow> body \<Rightarrow> world \<Rightarrow> response \<times> world" where
  "register env b w =
     (let name = body_field b ''name'';
          email = body_field b ''email'';
          phone = body_field b ''phone'';
          currentStatus = body_field b ''currentStatus'';
          workshop = body_field b ''workshop''
      in if \<not> truthy name \<or> \<not> truthy email \<or> \<not> truthy phone \<or> \<not> truthy workshop
         then (res_json 400 [(''success'', JBool False),
                             (''message'', JStr ''All fields are required'')], w)
         else if query_fails env InsertRegistration
         then (res_json 500 [(''success'', JBool False), (''message'', JStr ''DB error'')],
               console_log (Caught StoreError) w)
         else
           let (insertId, t) = insert_row \<lparr>r_name = name, r_email = email, r_phone = phone,
                                            r_current_status = currentStatus,
                                            r_workshop_title = workshop\<rparr> (registrations w);
               w1 = w\<lparr>registrations := t\<rparr>
           in case sendMail admin_address NewWorkshopRegistration
                     [name, workshop, email, phone, currentStatus] w1 of
                Inl e \<Rightarrow> (res_json 500 [(''success'', JBool False), (''message'', JStr ''DB error'')],
                          console_log (Caught e) w1)
              | Inr w2 \<Rightarrow>
                  (case sendMail email RegisteredFor [workshop, name, workshop] w2 of
                     Inl e \<Rightarrow> (res_json 500 [(''success'', JBool False),
                                              (''message'', JStr ''DB error'')],
                               console_log (Caught e) w2)
                   | Inr w3 \<Rightarrow> (res_json 200 [(''success'', JBool True),
                                               (''message'', JStr ''Registration successful!'')], w3)))"

section \<open>Mentor applications: the upload and the handler\<close>

text \<open>
  Node's \<open>path.extname\<close> (the POSIX variant), which the file filter and the file name
  use: one pass from the end of the path, over the state below; the pass stops at the
  first separator that follows a name. The indices are integers because the loop
  starts them at \<open>-1\<close>.
\<close>

record extname_state =
  startDot :: int
  startPart :: int
  end_index :: int
  matchedSlash :: bool
  preDotState :: int

primrec extname_loop :: "string \<Rightarrow> nat \<Rightarrow> extname_state \<Rightarrow> extname_state" where
  "extname_loop path 0 st = st"
| "extname_loop path (Suc i) st =
     (if path ! i = CHR ''/''
      then (if \<not> matchedSlash st then st\<lparr>startPart := int i + 1\<rparr>
            else extname_loop path i st)
      else
        let st1 = (if end_index st = - 1
                   then st\<lparr>matchedSlash := False, end_index := int i + 1\<rparr> else st);
            st2 = (if path ! i = CHR ''.''
                   then (if startDot st1 = - 1 then st1\<lparr>startDot := int i\<rparr>
                         else if preDotState st1 \<noteq> 1 then st1\<lparr>preDotState := 1\<rparr>
                         else st1)
                   else if startDot st1 \<noteq> - 1 then st1\<lparr>preDotState := - 1\<rparr>
                   else st1)
        in extname_loop path i st2)"

definition extname :: "string \<Rightarrow> string" where
  "extname path =
     (let st = extname_loop path (length path)
                 \<lparr>startDot = - 1, startPart = 0, end_index = - 1, matchedSlash = True,
                  preDotState = 0\<rparr>
      in if startDot st = - 1 \<or> end_index st = - 1 \<or> preDotState st = 0
            \<or> (preDotState st = 1 \<and> startDot st = end_index st - 1
                \<and> startDot st = startPart st + 1)
         then []
         else take (nat (end_index st) - nat (startDot st)) (drop (nat (startDot st)) path))"

text \<open>
  \<open>String.prototype.toLowerCase\<close> on the letters A to Z. No other character
  lower-cases to a letter of \<open>.pdf\<close>, \<open>.doc\<close> or \<open>.docx\<close>, so the file filter needs no
  more.
\<close>

definition lower_char :: "char \<Rightarrow> char" where
  "lower_char c =
     (case map_of (zip ''ABCDEFGHIJKLMNOPQRSTUVWXYZ'' ''abcdefghijklmnopqrstuvwxyz'') c of
        None \<Rightarrow> c
      | Some l \<Rightarrow> l)"

definition toLowerCase :: "string \<Rightarrow> string" where
  "toLowerCase s = map lower_char s"

text \<open>
  The file part of a multipart request, and the request of mentor-apply: its text
  fields and the part named \<open>resume\<close>, when there is one.
\<close>

record upload_file =
  originalname :: string
  content :: bytes

record multipart =
  req_body :: body
  req_resume :: "upload_file option"

text \<open>The multer instance \<open>upload\<close> (lines 28-39).\<close>

definition fileFilter :: "upload_file \<Rightarrow> bool" where
  "fileFilter f = (toLowerCase (extname (originalname f)) \<in> set [''.pdf'', ''.doc'', ''.docx''])"

definition fileSize :: nat where
  "fileSize = 10 * 1024 * 1024"

definition filename :: "env \<Rightarrow> upload_file \<Rightarrow> string" where
  "filename env f = number_toString (clock env) @ extname (originalname f)"

text \<open>
  \<open>upload.single("resume")\<close>. The filter's error and the size limit's error go to
  \<open>next(err)\<close>, and the route handler does not run; multer removes what it had written
  of a file over the limit. Whether a file of exactly \<open>fileSize\<close> bytes is over the limit
  depends on the version of the multipart parser, so it is left to the environment.
  An accepted file is written to the uploads directory under \<open>filename\<close>, and
  \<open>req.file.filename\<close> is that name.
\<close>

definition upload_single :: "env \<Rightarrow> upload_file option \<Rightarrow> world \<Rightarrow> exn + (string option \<times> world)" where
  "upload_single env part w =
     (case part of
        None \<Rightarrow> Inr (None, w)
      | Some f \<Rightarrow>
          if \<not> fileFilter f then Inl InvalidFileType
          else if fileSize < length (content f)
                  \<or> (length (content f) = fileSize \<and> rejects_at_limit env)
          then Inl LimitFileSize
          else Inr (Some (filename env f), w\<lparr>uploads := (uploads w)(filename env f \<mapsto> content f)\<rparr>))"

text \<open>
  \<open>Server.js\<close> registers no error-handling middleware, so an error passed to
  \<open>next\<close> reaches Express's default error handler: the error has no \<open>status\<close>
  property, and the response is 500 with an HTML page (no JSON payload).
\<close>

definition default_error_handler :: "exn \<Rightarrow> response" where
  "default_error_handler e = \<lparr>status_code = 500, payload = []\<rparr>"

text \<open>\<open>POST /api/mentor-apply\<close> (lines 285-300), behind the upload middleware.\<close>

definition mentor_apply :: "env \<Rightarrow> multipart \<Rightarrow> world \<Rightarrow> response \<times> world" where
  "mentor_apply env req w =
     (case upload_single env (req_resume req) w of
        Inl e \<Rightarrow> (default_error_handler e, w)
      | Inr (file, w0) \<Rightarrow>
          let name = body_field (req_body req) ''name'';
              email = body_field (req_body req) ''email'';
              phone = body_field (req_body req) ''phone'';
              expertise = body_field (req_body req) ''expertise'';
              experience = body_field (req_body req) ''experience'';
              message = body_field (req_body req) ''message''
          in (case file of
               None \<Rightarrow> (res_json 400 [(''success'', JBool False),
                                       (''message'', JStr ''Resume is required'')], w0)
             | Some resume \<Rightarrow>
                 if query_fails env InsertMentorApplication
                 then (res_json 500 [(''success'', JBool False),
                                     (''message'', JStr ''DB insert failed'')],
                       console_log (Caught StoreError) w0)
                 else
                   let (insertId, t) = insert_row \<lparr>m_name = name, m_email = email,
                                                    m_phone = phone, m_expertise = expertise,
                                                    m_experience = experience,
                                                    m_message = message, m_resume = resume\<rparr>
                                         (mentor_applications w0)
                   in (res_json 200 [(''success'', JBool True), (''id'', JNum (of_nat insertId)),
                                     (''fileUrl'', JStr (''/uploads/'' @ resume))],
                       w0\<lparr>mentor_applications := t\<rparr>)))"

text \<open>
  \<open>app.use("/uploads", express.static(UPLOADS_DIR))\<close> (line 26), for the request of a
  plain file name (letters, digits, dot, hyphen and underscore, not starting with a
  dot): such a name needs no URL decoding, names no directory and is no dotfile, and
  the answer is the file of that name in the uploads directory. Other paths are not
  modelled and read as \<open>None\<close>.
\<close>

definition plain_char :: "char \<Rightarrow> bool" where
  "plain_char c =
     (c \<in> set ''ABCDEFGHIJKLMNOPQRSTUVWXYZabcdefghijklmnopqrstuvwxyz0123456789-._'')"

definition express_static :: "world \<Rightarrow> string \<Rightarrow> bytes option" where
  "express_static w url =
     (let file = drop 9 url
      in if take 9 url = ''/uploads/'' \<and> file \<noteq> [] \<and> list_all plain_char file
            \<and> hd file \<noteq> CHR ''.''
         then uploads w file else None)"

section \<open>Testimonials and demo requests\<close>

text \<open>
  \<open>res.status(500).json({ error: err })\<close> serialises the caught error object: an
  object of the error's own enumerable properties. The driver's diagnostic properties
  are not modelled.
\<close>

definition error_json :: "exn \<Rightarrow> jsval" where
  "error_json e = JObj []"

text \<open>\<open>POST /api/testimonials\<close> (lines 312-323).\<close>

definition post_testimonial :: "env \<Rightarrow> body \<Rightarrow> world \<Rightarrow> response \<times> world" where
  "post_testimonial env b w =
     (let name = body_field b ''name'';
          role = body_field b ''role'';
          review = body_field b ''review'';
          verified = body_field b ''verified''
      in if query_fails env InsertTestimonial
         then (res_json 500 [(''error'', error_json StoreError)], w)
         else
           let (insertId, t) = insert_row \<lparr>t_name = name, t_role = role, t_review = review,
                                            t_verified = verified\<rparr> (testimonials w)
           in (res_json 200 [(''message'', JStr ''Testimonial added successfully''),
                             (''id'', JNum (of_nat insertId))],
               w\<lparr>testimonials := t\<rparr>))"

text \<open>\<open>POST /api/demo-request\<close> (lines 336-368).\<close>

definition demo_request :: "env \<Rightarrow> body \<Rightarrow> world \<Rightarrow> response \<times> world" where
  "demo_request env b w =
     (let name = body_field b ''name'';
          email = body_field b ''email'';
          phone = body_field b ''phone'';
          status = body_field b ''status'';
          course = body_field b ''course'';
          message = body_field b ''message''
      in if query_fails env InsertDemoRequest
         then (res_json 500 [(''error'', JStr ''Database insert failed'')],
               console_log (Caught StoreError) w)
         else
           let (insertId, t) = insert_row \<lparr>d_name = name, d_email = email, d_phone = phone,
                                            d_status = status, d_course = course,
                                            d_message = message\<rparr> (demo_requests w);
               w1 = w\<lparr>demo_requests := t\<rparr>
           in case sendMail admin_address NewDemoRequest
                     [name, email, phone, status, course, message] w1 of
                Inl e \<Rightarrow> (res_json 500 [(''error'', JStr ''Database insert failed'')],
                          console_log (Caught e) w1)
              | Inr w2 \<Rightarrow>
                  (case sendMail email DemoRequestReceived [name, course, phone] w2 of
                     Inl e \<Rightarrow> (res_json 500 [(''error'', JStr ''Database insert failed'')],
                               console_log (Caught e) w2)
                   | Inr w3 \<Rightarrow> (res_json 200 [(''success'', JBool True),
                                               (''id'', JNum (of_nat insertId))], w3)))"

section \<open>Example requests\<close>

text \<open>
  Modelled from the spec: the schema, and with it the store's comparison of a column
  with a bound value, is not in the source. The spec speaks of a request "with the same
  email and code" as the stored row; the examples compare by equality of the values,
  never true of NULL. The theorems below hold for every comparison; only the examples
  use this one.
\<close>

definition same_value :: "jsval \<Rightarrow> jsval \<Rightarrow> bool" where
  "same_value column v = (column = v \<and> v \<noteq> JUndefined \<and> v \<noteq> JNull)"

definition is_digit :: "char \<Rightarrow> bool" where
  "is_digit c = (c \<in> set ''0123456789'')"

text \<open>An environment where the store and the mail transport work, one where the mail
  transport is missing, one where every send fails, one where the store rejects
  the insert of a mentor application, and one where it rejects every statement.\<close>

definition env_ok :: env where
  "env_ok = \<lparr>clock = 1700000000000, math_random = 1 / 2, query_fails = (\<lambda>q. False),
            transporter = True, send_fails = (\<lambda>m. False), sql_eq = same_value,
            rejects_at_limit = False\<rparr>"

definition env_no_transporter :: env where
  "env_no_transporter = env_ok\<lparr>transporter := False\<rparr>"

definition env_mail_fails :: env where
  "env_mail_fails = env_ok\<lparr>send_fails := (\<lambda>m. True)\<rparr>"

definition env_insert_fails :: env where
  "env_insert_fails = env_ok\<lparr>query_fails := (\<lambda>q. q = InsertMentorApplication)\<rparr>"

definition env_store_rejects :: env where
  "env_store_rejects = env_ok\<lparr>query_fails := (\<lambda>q. True)\<rparr>"

definition empty_world :: world where
  "empty_world =
     \<lparr>users = \<lparr>rows = [], auto_increment = 0\<rparr>,
      user_otps = \<lparr>rows = [], auto_increment = 0\<rparr>,
      enrollments = \<lparr>rows = [], auto_increment = 0\<rparr>,
      registrations = \<lparr>rows = [], auto_increment = 0\<rparr>,
      mentor_applications = \<lparr>rows = [], auto_increment = 0\<rparr>,
      testimonials = \<lparr>rows = [], auto_increment = 0\<rparr>,
      demo_requests = \<lparr>rows = [], auto_increment = 0\<rparr>,
      uploads = Map.empty, outbox = [], console = []\<rparr>"

definition asha :: user where
  "asha = \<lparr>u_name = JStr ''Asha'', u_email = JStr ''asha@example.org'',
           u_password = JStr ''s3cret''\<rparr>"

definition world_with_user :: world where
  "world_with_user = empty_world\<lparr>users := \<lparr>rows = [(1, asha)], auto_increment = 1\<rparr>\<rparr>"

definition enroll_body :: body where
  "enroll_body = [''name'' \<mapsto> JStr ''Asha'', ''email'' \<mapsto> JStr ''asha@example.org'',
                  ''phone'' \<mapsto> JStr ''5550100'', ''courseId'' \<mapsto> JNum 3]"

definition register_body :: body where
  "register_body = [''name'' \<mapsto> JStr ''Asha'', ''email'' \<mapsto> JStr ''asha@example.org'',
                    ''phone'' \<mapsto> JStr ''5550100'', ''workshop'' \<mapsto> JStr ''Intro to ML'']"

definition login_body :: body where
  "login_body = [''email'' \<mapsto> JStr ''asha@example.org'', ''password'' \<mapsto> JStr ''s3cret'']"

definition verify_body :: body where
  "verify_body = [''email'' \<mapsto> JStr ''asha@example.org'', ''otp'' \<mapsto> JStr ''550000'']"

text \<open>A stored code that is live at the clock of \<open>env_ok\<close>, and one that has expired.\<close>

definition live_code :: otp where
  "live_code = \<lparr>o_email = JStr ''asha@example.org'', o_otp = JStr ''550000'',
                o_expires_at = 1700000600000\<rparr>"

definition expired_code :: otp where
  "expired_code = \<lparr>o_email = JStr ''asha@example.org'', o_otp = JStr ''550000'',
                   o_expires_at = 1699999000000\<rparr>"

definition world_live_code :: world where
  "world_live_code = world_with_user\<lparr>user_otps := \<lparr>rows = [(1, live_code)], auto_increment = 1\<rparr>\<rparr>"

definition world_expired_code :: world where
  "world_expired_code =
     world_with_user\<lparr>user_otps := \<lparr>rows = [(1, expired_code)], auto_increment = 1\<rparr>\<rparr>"

definition world_both_codes :: world where
  "world_both_codes =
     world_with_user\<lparr>user_otps := \<lparr>rows = [(1, expired_code), (2, live_code)],
                                    auto_increment = 2\<rparr>\<rparr>"

definition pdf_request :: multipart where
  "pdf_request =
     \<lparr>req_body = [''name'' \<mapsto> JStr ''Asha'', ''email'' \<mapsto> JStr ''asha@example.org''],
      req_resume = Some \<lparr>originalname = ''cv.PDF'', content = [37, 80, 68, 70]\<rparr>\<rparr>"

definition exe_request :: multipart where
  "exe_request = pdf_request\<lparr>req_resume := Some \<lparr>originalname = ''virus.exe'', content = [77, 90]\<rparr>\<rparr>"

definition no_file_request :: multipart where
  "no_file_request = pdf_request\<lparr>req_resume := None\<rparr>"

section \<open>Properties\<close>

declare digits10.simps [simp del]

subsection \<open>What the notifier leaves alone\<close>

lemma sendMailSafe_enrollments:
  "enrollments (sendMailSafe env to t vs w) = enrollments w"
  by (simp add: sendMailSafe_def console_log_def)

subsection \<open>Enroll\<close>

text \<open>
  C2. An enroll request whose name, email, phone and courseId are present (truthy, as
  the handler's check reads them) and whose insert the store accepts is answered 201;
  the \<open>enrollmentId\<close> of the answer is the id of the new row, a positive number, and
  the row holds the request's values. The environment is arbitrary: the transporter
  may be missing and any send may fail.
\<close>

theorem enroll_created:
  assumes "truthy (body_field b ''name'')" and "truthy (body_field b ''email'')"
    and "truthy (body_field b ''phone'')" and "truthy (body_field b ''courseId'')"
    and "\<not> query_fails env InsertEnrollment"
  shows "status_code (fst (enroll env b w)) = 201
       \<and> map_of (payload (fst (enroll env b w))) ''enrollmentId''
           = Some (JNum (of_nat (Suc (auto_increment (enrollments w)))))
       \<and> 0 < Suc (auto_increment (enrollments w))
       \<and> rows (enrollments (snd (enroll env b w)))
           = rows (enrollments w) @
             [(Suc (auto_increment (enrollments w)),
               \<lparr>e_name = body_field b ''name'', e_email = body_field b ''email'',
                e_phone = body_field b ''phone'',
                e_status = (case body_field b ''status'' of
                              JUndefined \<Rightarrow> JStr ''Pending'' | v \<Rightarrow> v),
                e_course_id = body_field b ''courseId''\<rparr>)]"
  using assms
  by (simp add: enroll_def Let_def insert_row_def res_json_def sendMailSafe_enrollments)

theorem enroll_created_witness:
  "status_code (fst (enroll env_no_transporter enroll_body empty_world)) = 201
   \<and> status_code (fst (enroll env_mail_fails enroll_body empty_world)) = 201
   \<and> map_of (payload (fst (enroll env_mail_fails enroll_body empty_world))) ''enrollmentId''
       = Some (JNum 1)
   \<and> rows (enrollments (snd (enroll env_mail_fails enroll_body empty_world)))
       = [(1, \<lparr>e_name = JStr ''Asha'', e_email = JStr ''asha@example.org'',
               e_phone = JStr ''5550100'', e_status = JStr ''Pending'',
               e_course_id = JNum 3\<rparr>)]"
  using enroll_created [of enroll_body env_no_transporter empty_world]
    enroll_created [of enroll_body env_mail_fails empty_world]
  by (simp add: enroll_body_def body_field_def env_no_transporter_def env_mail_fails_def
      env_ok_def empty_world_def)

text \<open>
  C8. When the request has no \<open>status\<close> field, the inserted row's status is the string
  \<open>Pending\<close>; a status that the request supplies is stored as given.
\<close>

theorem enroll_status_default:
  assumes "truthy (body_field b ''name'')" and "truthy (body_field b ''email'')"
    and "truthy (body_field b ''phone'')" and "truthy (body_field b ''courseId'')"
    and "\<not> query_fails env InsertEnrollment"
  shows "(b ''status'' = None \<longrightarrow>
            e_status (snd (last (rows (enrollments (snd (enroll env b w)))))) = JStr ''Pending'')
       \<and> (\<forall>v. b ''status'' = Some v \<and> v \<noteq> JUndefined \<longrightarrow>
            e_status (snd (last (rows (enrollments (snd (enroll env b w)))))) = v)"
  using assms
  by (auto simp add: enroll_def Let_def insert_row_def sendMailSafe_enrollments body_field_def
      split: jsval.splits)

theorem enroll_status_default_witness:
  "e_status (snd (last (rows (enrollments (snd (enroll env_ok enroll_body empty_world))))))
     = JStr ''Pending''
   \<and> e_status (snd (last (rows (enrollments
         (snd (enroll env_ok (enroll_body(''status'' \<mapsto> JNull)) empty_world))))))
     = JNull"
  using enroll_status_default [of enroll_body env_ok empty_world]
    enroll_status_default [of "enroll_body(''status'' \<mapsto> JNull)" env_ok empty_world]
  by (simp add: enroll_body_def body_field_def env_ok_def)

subsection \<open>Handlers that call \<open>sendMail\<close>\<close>

text \<open>
  C1. The claim: after its insert, a handler that notifies answers with its success
  response whether or not the mail goes out. Enroll does, in every mail environment
  (see C2). Register, login and demo-request call \<open>sendMail\<close>, which the module does
  not bind: the call throws inside the \<open>try\<close>, after the insert, and the \<open>catch\<close>
  answers 500. So a valid register request whose row the store has inserted is
  answered 500, in every environment, and no mail is sent.
\<close>

theorem register_answers_500_after_insert:
  assumes "truthy (body_field b ''name'')" and "truthy (body_field b ''email'')"
    and "truthy (body_field b ''phone'')" and "truthy (body_field b ''workshop'')"
    and "\<not> query_fails env InsertRegistration"
  shows "status_code (fst (register env b w)) = 500
       \<and> rows (registrations (snd (register env b w)))
           = rows (registrations w) @
             [(Suc (auto_increment (registrations w)),
               \<lparr>r_name = body_field b ''name'', r_email = body_field b ''email'',
                r_phone = body_field b ''phone'',
                r_current_status = body_field b ''currentStatus'',
                r_workshop_title = body_field b ''workshop''\<rparr>)]
       \<and> outbox (snd (register env b w)) = outbox w"
  using assms
  by (simp add: register_def Let_def insert_row_def res_json_def sendMail_def console_log_def)

theorem register_answers_500_after_insert_witness:
  "fst (register env_ok register_body empty_world)
     = \<lparr>status_code = 500,
        payload = [(''success'', JBool False), (''message'', JStr ''DB error'')]\<rparr>
   \<and> rows (registrations (snd (register env_ok register_body empty_world)))
       = [(1, \<lparr>r_name = JStr ''Asha'', r_email = JStr ''asha@example.org'',
               r_phone = JStr ''5550100'', r_current_status = JUndefined,
               r_workshop_title = JStr ''Intro to ML''\<rparr>)]"
proof -
  have "status_code (fst (register env_ok register_body empty_world)) = 500"
    using register_answers_500_after_insert [of register_body env_ok empty_world]
    by (simp add: register_body_def body_field_def env_ok_def)
  then show ?thesis
    by (simp add: register_def Let_def insert_row_def res_json_def sendMail_def console_log_def
        register_body_def body_field_def env_ok_def empty_world_def)
qed

text \<open>The same defect in the two other callers: neither ever answers 200.\<close>

lemma login_never_200: "status_code (fst (login env b w)) \<noteq> 200"
  by (simp add: login_def Let_def insert_row_def res_json_def sendMail_def)

lemma demo_request_never_200: "status_code (fst (demo_request env b w)) \<noteq> 200"
  by (simp add: demo_request_def Let_def insert_row_def res_json_def sendMail_def)

lemma register_never_200: "status_code (fst (register env b w)) \<noteq> 200"
  by (simp add: register_def Let_def insert_row_def res_json_def sendMail_def)

subsection \<open>Login: the stored code\<close>

lemma digit_char_is_digit: "d < 10 \<Longrightarrow> is_digit (digit_char d)"
proof -
  assume "d < 10"
  then have "d \<in> {0, 1, 2, 3, 4, 5, 6, 7, 8, 9}" by auto
  then show ?thesis
    by (auto simp: is_digit_def digit_char_def)
qed

lemma digits10_all_digits: "list_all is_digit (digits10 n)"
proof (induction n rule: digits10.induct)
  case (1 n)
  show ?case
  proof (cases "n < 10")
    case True
    then show ?thesis by (simp add: digits10.simps [of n] digit_char_is_digit)
  next
    case False
    with 1 show ?thesis
      by (simp add: digits10.simps [of n] digit_char_is_digit)
  qed
qed

lemma digits10_length: "10 ^ k \<le> n \<Longrightarrow> n < 10 ^ Suc k \<Longrightarrow> length (digits10 n) = Suc k"
proof (induction k arbitrary: n)
  case 0
  then show ?case by (simp add: digits10.simps [of n])
next
  case (Suc k)
  have "(1::nat) \<le> 10 ^ k" by simp
  then have "(10::nat) \<le> 10 ^ Suc k" by simp
  with Suc.prems(1) have big: "\<not> n < 10" by linarith
  have lo: "10 ^ k \<le> n div 10"
    using Suc.prems(1) by (simp add: less_eq_div_iff_mult_less_eq)
  have hi: "n div 10 < 10 ^ Suc k"
    using Suc.prems(2) by (simp add: div_less_iff_less_mult)
  from Suc.IH [OF lo hi] big show ?case
    by (simp add: digits10.simps [of n])
qed

subsection \<open>Rounding to doubles\<close>

lemma round_cases: "roundTiesToEven y = \<lfloor>y\<rfloor> \<or> roundTiesToEven y = \<lfloor>y\<rfloor> + 1"
  by (simp add: roundTiesToEven_def Let_def)

lemma round_near_floor: "y - of_int \<lfloor>y\<rfloor> < 1 / 2 \<Longrightarrow> roundTiesToEven y = \<lfloor>y\<rfloor>"
  by (simp add: roundTiesToEven_def Let_def)

lemma round_lt_half:
  assumes "y < of_int k + 1 / 2"
  shows "roundTiesToEven y \<le> k"
proof (cases "\<lfloor>y\<rfloor> = k")
  case True
  with assms have "y - of_int \<lfloor>y\<rfloor> < 1 / 2" by simp
  then show ?thesis using True by (simp add: round_near_floor)
next
  case False
  have "y < of_int k + 1" using assms by linarith
  then have "\<lfloor>y\<rfloor> \<le> k" by (simp add: floor_le_iff)
  with False have "\<lfloor>y\<rfloor> + 1 \<le> k" by simp
  with round_cases [of y] show ?thesis by linarith
qed

lemma round_le: "y \<le> of_int k \<Longrightarrow> roundTiesToEven y \<le> k"
  by (rule round_lt_half) linarith

lemma round_ge:
  assumes "of_int k \<le> y"
  shows "k \<le> roundTiesToEven y"
proof -
  have "k \<le> \<lfloor>y\<rfloor>" using assms by (simp add: le_floor_iff)
  with round_cases [of y] show ?thesis by linarith
qed

lemma round_of_int: "roundTiesToEven (of_int k) = k"
  by (simp add: roundTiesToEven_def)

text \<open>The exponent brackets its argument between two powers of two.\<close>

lemma exponent_bounds:
  assumes "0 < x"
  shows "2 powi exponent x \<le> x \<and> x < 2 powi (exponent x + 1)"
proof (cases "1 \<le> x")
  case True
  define n where "n = nat \<lfloor>x\<rfloor>"
  have n: "0 < n" using True by (simp add: n_def)
  have e: "exponent x = int (floorlog 2 n) - 1" using True by (simp add: exponent_def n_def)
  have fl: "0 < floorlog 2 n" using n by (simp add: floorlog_def)
  from floorlog_bounds [of n 2] n
  have b: "2 ^ (floorlog 2 n - 1) \<le> n" "n < 2 ^ floorlog 2 n" by simp_all
  have "0 \<le> \<lfloor>x\<rfloor>" using True by simp
  then have "(of_nat n :: rat) = of_int \<lfloor>x\<rfloor>" by (simp add: n_def)
  with floor_correct [of x] have nx: "of_nat n \<le> x" "x < of_nat n + 1"
    by simp_all
  have p: "(2::rat) powi exponent x = 2 ^ (floorlog 2 n - 1)"
    using fl by (simp add: e power_int_def nat_diff_distrib')
  have "(of_nat (2 ^ (floorlog 2 n - 1)) :: rat) \<le> of_nat n" using b(1) by (simp only: of_nat_le_iff)
  then have "(2::rat) ^ (floorlog 2 n - 1) \<le> of_nat n" by simp
  with p have lo: "2 powi exponent x \<le> x" using nx(1) by linarith
  have "n + 1 \<le> 2 ^ floorlog 2 n" using b(2) by simp
  then have "(of_nat (n + 1) :: rat) \<le> of_nat (2 ^ floorlog 2 n)" by (simp only: of_nat_le_iff)
  then have "(of_nat n :: rat) + 1 \<le> 2 ^ floorlog 2 n" by simp
  then have "x < 2 ^ floorlog 2 n" using nx(2) by linarith
  also have "(2::rat) ^ floorlog 2 n = 2 powi (exponent x + 1)"
    by (simp add: e)
  finally show ?thesis using lo by simp
next
  case False
  define y where "y = 1 / x"
  have y: "1 < y" using False assms by (simp add: y_def)
  define m where "m = nat (\<lceil>y\<rceil> - 1)"
  have cy: "2 \<le> \<lceil>y\<rceil>" using y by (simp add: le_ceiling_iff)
  have m: "0 < m" using cy by (simp add: m_def)
  have e: "exponent x = - int (floorlog 2 m)" using False by (simp add: exponent_def m_def y_def)
  from floorlog_bounds [of m 2] m
  have b: "2 ^ (floorlog 2 m - 1) \<le> m" "m < 2 ^ floorlog 2 m" by simp_all
  have fl: "0 < floorlog 2 m" using m by (simp add: floorlog_def)
  have "(of_nat m :: rat) = of_int \<lceil>y\<rceil> - 1" using cy by (simp add: m_def)
  with ceiling_correct [of y] have my: "of_nat m < y" "y \<le> of_nat m + 1"
    by simp_all
  have "m + 1 \<le> 2 ^ floorlog 2 m" using b(2) by simp
  then have "(of_nat (m + 1) :: rat) \<le> of_nat (2 ^ floorlog 2 m)" by (simp only: of_nat_le_iff)
  then have "(of_nat m :: rat) + 1 \<le> 2 ^ floorlog 2 m" by simp
  then have yhi: "y \<le> 2 ^ floorlog 2 m" using my(2) by linarith
  have "(of_nat (2 ^ (floorlog 2 m - 1)) :: rat) \<le> of_nat m" using b(1) by (simp only: of_nat_le_iff)
  then have "(2::rat) ^ (floorlog 2 m - 1) \<le> of_nat m" by simp
  then have ylo: "2 ^ (floorlog 2 m - 1) < y" using my(1) by linarith
  have x: "x = 1 / y" using assms by (simp add: y_def)
  have "(2::rat) powi exponent x = 1 / 2 ^ floorlog 2 m"
    by (simp add: e power_int_minus_divide)
  also have "\<dots> \<le> 1 / y" using yhi y by (simp add: frac_le)
  finally have lo: "2 powi exponent x \<le> x" by (simp add: x)
  have "(2::rat) powi (exponent x + 1) = 1 / 2 ^ (floorlog 2 m - 1)"
  proof -
    have "exponent x + 1 = - int (floorlog 2 m - 1)" using fl by (simp add: e)
    then show ?thesis by (simp add: power_int_minus_divide)
  qed
  moreover have "1 / y < 1 / 2 ^ (floorlog 2 m - 1)"
    using ylo by (simp add: frac_less2)
  ultimately have "x < 2 powi (exponent x + 1)" by (simp add: x)
  with lo show ?thesis by simp
qed


lemma exponent_less:
  assumes "0 < x" and "x < 2 powi E"
  shows "exponent x < E"
proof (rule ccontr)
  assume "\<not> exponent x < E"
  then have "E \<le> exponent x" by simp
  then have "(2::rat) powi E \<le> 2 powi exponent x" by (simp add: power_int_increasing)
  with exponent_bounds [OF assms(1)] assms(2) show False by linarith
qed

lemma exponent_ge:
  assumes "0 < x" and "2 powi E \<le> x"
  shows "E \<le> exponent x"
proof (rule ccontr)
  assume "\<not> E \<le> exponent x"
  then have "exponent x + 1 \<le> E" by simp
  then have "(2::rat) powi (exponent x + 1) \<le> 2 powi E" by (simp add: power_int_increasing)
  with exponent_bounds [OF assms(1)] assms(2) show False by linarith
qed

lemma to_double_pos:
  "0 < x \<Longrightarrow>
   to_double x = of_int (roundTiesToEven (x / 2 powi (max (exponent x) (- 1022) - 52)))
                   * 2 powi (max (exponent x) (- 1022) - 52)"
  by (simp add: to_double_def Let_def)

lemma pow2_pos: "0 < (2::rat) powi e"
  by (simp add: zero_less_power_int)

lemma to_double_nonneg: "0 \<le> x \<Longrightarrow> 0 \<le> to_double x"
proof (cases "x = 0")
  case True
  then show ?thesis by (simp add: to_double_def)
next
  case False
  assume "0 \<le> x"
  with False have x: "0 < x" by simp
  let ?q = "(2::rat) powi (max (exponent x) (- 1022) - 52)"
  have "of_int 0 \<le> x / ?q" using x pow2_pos [of "max (exponent x) (- 1022) - 52"] by simp
  then have "0 \<le> roundTiesToEven (x / ?q)" by (rule round_ge)
  then show ?thesis
    using pow2_pos [of "max (exponent x) (- 1022) - 52"] by (simp add: to_double_pos [OF x])
qed

lemma pow2_split: "(2::rat) powi (e + 1) = 2 powi 53 * 2 powi (e - 52)"
  using power_int_add [of "2::rat" 53 "e - 52"] by (simp add: add.commute)

text \<open>Rounding never crosses a power of two, ...\<close>

lemma to_double_le_pow:
  assumes "0 < x" and "x < 2 powi E" and "- 1022 < E"
  shows "to_double x \<le> 2 powi E"
proof -
  let ?e = "max (exponent x) (- 1022)"
  let ?q = "(2::rat) powi (?e - 52)"
  have q: "0 < ?q" by (rule pow2_pos)
  have "exponent x < E" using assms(1,2) by (rule exponent_less)
  with assms(3) have eE: "?e + 1 \<le> E" by simp
  have "exponent x + 1 \<le> ?e + 1" by simp
  then have "(2::rat) powi (exponent x + 1) \<le> 2 powi (?e + 1)"
    by (simp only: power_int_increasing one_le_numeral)
  with exponent_bounds [OF assms(1)] have "x < 2 powi (?e + 1)" by linarith
  also have "(2::rat) powi (?e + 1) = 2 powi 53 * ?q"
    by (rule pow2_split)
  finally have "x / ?q < 2 powi 53" using q by (simp add: pos_divide_less_eq)
  then have "x / ?q \<le> of_int (2 ^ 53)" by simp
  then have "roundTiesToEven (x / ?q) \<le> 2 ^ 53" by (rule round_le)
  then have "(of_int (roundTiesToEven (x / ?q)) :: rat) \<le> of_int (2 ^ 53)"
    by (simp only: of_int_le_iff)
  then have "of_int (roundTiesToEven (x / ?q)) * ?q \<le> of_int (2 ^ 53) * ?q"
    using q by (simp only: mult_le_cancel_right_pos)
  also have "of_int (2 ^ 53) * ?q = 2 powi (?e + 1)"
    by (simp add: pow2_split [of ?e])
  also have "\<dots> \<le> 2 powi E" using eE by (simp only: power_int_increasing one_le_numeral)
  finally show ?thesis by (simp only: to_double_pos [OF assms(1)])
qed

text \<open>... and within a binade it goes to the nearest multiple of the quantum.\<close>

lemma to_double_le_grid:
  assumes "0 < x" and "2 powi e \<le> x" and "x < 2 powi (e + 1)" and "- 1022 \<le> e"
    and "x < (of_int k + 1 / 2) * 2 powi (e - 52)"
  shows "to_double x \<le> of_int k * 2 powi (e - 52)"
proof -
  have "exponent x < e + 1" using assms(1,3) by (rule exponent_less)
  moreover have "e \<le> exponent x" using assms(1,2) by (rule exponent_ge)
  ultimately have e: "max (exponent x) (- 1022) = e" using assms(4) by simp
  let ?q = "(2::rat) powi (e - 52)"
  have q: "0 < ?q" by (rule pow2_pos)
  have "x / ?q < of_int k + 1 / 2" using assms(5) q by (simp add: pos_divide_less_eq)
  then have "roundTiesToEven (x / ?q) \<le> k" by (rule round_lt_half)
  then have "(of_int (roundTiesToEven (x / ?q)) :: rat) \<le> of_int k"
    by (simp only: of_int_le_iff)
  then have "of_int (roundTiesToEven (x / ?q)) * ?q \<le> of_int k * ?q"
    using q by (simp only: mult_le_cancel_right_pos)
  then show ?thesis by (simp only: to_double_pos [OF assms(1)] e)
qed

text \<open>An integer below \<open>2^53\<close> is a double, so rounding does not cross it.\<close>

lemma to_double_ge_int:
  assumes "0 < A" and "of_int A \<le> x" and "x < 2 powi 53"
  shows "of_int A \<le> to_double x"
proof -
  have "(0::rat) < of_int A" using assms(1) by simp
  with assms(2) have x: "0 < x" by linarith
  let ?e = "max (exponent x) (- 1022)"
  let ?q = "(2::rat) powi (?e - 52)"
  have q: "0 < ?q" by (rule pow2_pos)
  have "exponent x < 53" using x assms(3) by (rule exponent_less)
  then have e: "0 \<le> 52 - ?e" by simp
  have "(of_int A :: rat) / ?q = of_int A * 2 powi (52 - ?e)"
    by (simp add: power_int_diff power_int_minus_divide divide_simps)
  also have "\<dots> = of_int (A * 2 ^ nat (52 - ?e))"
    using e by (simp add: power_int_def)
  finally have grid: "(of_int A :: rat) / ?q = of_int (A * 2 ^ nat (52 - ?e))" .
  have "(of_int A :: rat) / ?q \<le> x / ?q" using assms(2) q by (simp add: divide_right_mono)
  then have "of_int (A * 2 ^ nat (52 - ?e)) \<le> x / ?q" by (simp only: grid)
  then have "A * 2 ^ nat (52 - ?e) \<le> roundTiesToEven (x / ?q)" by (rule round_ge)
  then have "(of_int (A * 2 ^ nat (52 - ?e)) :: rat) \<le> of_int (roundTiesToEven (x / ?q))"
    by (simp only: of_int_le_iff)
  then have "of_int A / ?q \<le> of_int (roundTiesToEven (x / ?q))" by (simp only: grid)
  then have "of_int A \<le> of_int (roundTiesToEven (x / ?q)) * ?q"
    using q by (simp add: pos_divide_le_eq)
  then show ?thesis by (simp only: to_double_pos [OF x])
qed


text \<open>The largest double below 1 is \<open>1 - 2^-53\<close>.\<close>

lemma double_below_one:
  assumes "is_double r" and "0 \<le> r" and "r < 1"
  shows "r \<le> 1 - 2 powi (- 53)"
proof (cases "r < 1 / 2")
  case True
  then show ?thesis by simp
next
  case False
  then have half: "2 powi (- 1) \<le> r" by simp
  then have r: "0 < r" by simp
  have "exponent r < 0" using r assms(3) by (intro exponent_less) simp_all
  moreover have "- 1 \<le> exponent r" using r half by (rule exponent_ge)
  ultimately have e: "max (exponent r) (- 1022) = - 1" by simp
  define n where "n = roundTiesToEven (r / 2 powi (- 53))"
  have rn: "r = of_int n * 2 powi (- 53)"
    using assms(1) by (simp add: is_double_def to_double_pos [OF r] e n_def)
  with assms(3) have "(of_int n :: rat) < of_int (2 ^ 53)" by simp
  then have "n < 2 ^ 53" by (simp only: of_int_less_iff)
  then have "n \<le> 2 ^ 53 - 1" by simp
  then have "(of_int n :: rat) \<le> of_int (2 ^ 53 - 1)" by (simp only: of_int_le_iff)
  then show ?thesis by (simp add: rn)
qed

lemma product_rounded:
  assumes "is_double r" and "0 \<le> r" and "r < 1"
  shows "0 \<le> to_double (r * 900000) \<and> to_double (r * 900000) \<le> 900000 - 2 powi (- 33)"
proof -
  let ?x = "r * 900000"
  have x0: "0 \<le> ?x" using assms(2) by simp
  have "r \<le> 1 - 2 powi (- 53)" using assms by (rule double_below_one)
  then have xhi: "?x \<le> 900000 - 900000 * 2 powi (- 53)" by simp
  have lo: "0 \<le> to_double ?x" using x0 by (rule to_double_nonneg)
  have hi: "to_double ?x \<le> 900000 - 2 powi (- 33)"
  proof (cases "?x < 2 powi 19")
    case True
    show ?thesis
    proof (cases "?x = 0")
      case True
      then show ?thesis by (simp add: to_double_def)
    next
      case False
      with x0 have "0 < ?x" by simp
      then have "to_double ?x \<le> 2 powi 19" using True by (rule to_double_le_pow) simp
      then show ?thesis by simp
    qed
  next
    case False
    then have b: "2 powi 19 \<le> ?x" by simp
    then have pos: "0 < ?x" by simp
    have "to_double ?x \<le> of_int (900000 * 2 ^ 33 - 1) * 2 powi (19 - 52)"
      using pos b
    proof (rule to_double_le_grid)
      show "?x < 2 powi (19 + 1)" using xhi by simp
      show "- 1022 \<le> (19::int)" by simp
      show "?x < (of_int (900000 * 2 ^ 33 - 1) + 1 / 2) * 2 powi (19 - 52)"
        using xhi by simp
    qed
    then show ?thesis by simp
  qed
  from lo hi show ?thesis by simp
qed

lemma sum_rounded:
  assumes "0 \<le> y" and "y \<le> 900000 - 2 powi (- 33)"
  shows "100000 \<le> to_double (100000 + y) \<and> to_double (100000 + y) < 1000000"
proof -
  let ?s = "100000 + y"
  have pos: "0 < ?s" using assms(1) by simp
  have shi: "?s \<le> 1000000 - 2 powi (- 33)" using assms(2) by simp
  have "of_int 100000 \<le> to_double ?s"
    using assms shi by (intro to_double_ge_int) simp_all
  then have lo: "100000 \<le> to_double ?s" by simp
  have hi: "to_double ?s < 1000000"
  proof (cases "?s < 2 powi 19")
    case True
    with pos have "to_double ?s \<le> 2 powi 19" by (rule to_double_le_pow) simp
    then show ?thesis by simp
  next
    case False
    then have b: "2 powi 19 \<le> ?s" by simp
    have "to_double ?s \<le> of_int (1000000 * 2 ^ 33 - 1) * 2 powi (19 - 52)"
      using pos b
    proof (rule to_double_le_grid)
      show "?s < 2 powi (19 + 1)" using shi by simp
      show "- 1022 \<le> (19::int)" by simp
      show "?s < (of_int (1000000 * 2 ^ 33 - 1) + 1 / 2) * 2 powi (19 - 52)"
        using shi by simp
    qed
    then show ?thesis by simp
  qed
  from lo hi show ?thesis by simp
qed

lemma otp_range:
  assumes "is_double r" and "0 \<le> r" and "r < 1"
  shows "100000 \<le> \<lfloor>to_double (100000 + to_double (r * 900000))\<rfloor>
       \<and> \<lfloor>to_double (100000 + to_double (r * 900000))\<rfloor> \<le> 999999"
proof -
  from product_rounded [OF assms]
  have "100000 \<le> to_double (100000 + to_double (r * 900000))
      \<and> to_double (100000 + to_double (r * 900000)) < 1000000"
    by (intro sum_rounded) simp_all
  then show ?thesis by (simp add: le_floor_iff floor_less_iff)
qed

lemma half_is_double: "is_double (1 / 2)"
  by (simp add: is_double_def to_double_def exponent_def compute_floorlog roundTiesToEven_def)

lemma otp_of_half: "\<lfloor>to_double (100000 + to_double (1 / 2 * 900000))\<rfloor> = 550000"
proof -
  have "to_double (1 / 2 * 900000) = 450000"
    by (simp add: to_double_def exponent_def compute_floorlog roundTiesToEven_def)
  moreover have "to_double (100000 + 450000) = 550000"
    by (simp add: to_double_def exponent_def compute_floorlog roundTiesToEven_def)
  ultimately show ?thesis by simp
qed

subsection \<open>Login: the digits of the code\<close>

lemma six_digits:
  fixes i :: int
  assumes "100000 \<le> i" and "i \<le> 999999"
  shows "length (number_toString i) = 6 \<and> list_all is_digit (number_toString i)"
proof -
  have "10 ^ 5 \<le> nat i" and "nat i < 10 ^ Suc 5" using assms by simp_all
  then have "length (digits10 (nat i)) = Suc 5" by (rule digits10_length)
  with assms show ?thesis
    by (simp add: number_toString_def digits10_all_digits)
qed

text \<open>
  C5. A login whose email and password match a stored user, and whose statements the
  store accepts, stores one new row: the request's email, a code, and the expiry
  \<open>clock + 600000\<close> ms (the request time plus 10 minutes). \<open>Math.random()\<close> being a
  double in \<open>[0, 1)\<close>, the code is the decimal notation of an integer from 100000 to
  999999: exactly 6 characters, each a digit.
\<close>

theorem login_stores_six_digit_code:
  assumes "(i, u) \<in> set (rows (users w))"
    and "sql_eq env (u_email u) (body_field b ''email'')"
    and "sql_eq env (u_password u) (body_field b ''password'')"
    and "is_double (math_random env)"
    and "0 \<le> math_random env" and "math_random env < 1"
    and "\<not> query_fails env SelectUserByCredentials" and "\<not> query_fails env InsertOtp"
  shows "rows (user_otps (snd (login env b w)))
           = rows (user_otps w) @
             [(Suc (auto_increment (user_otps w)),
               \<lparr>o_email = body_field b ''email'',
                o_otp = JStr (number_toString
                          \<lfloor>to_double (100000 + to_double (math_random env * 900000))\<rfloor>),
                o_expires_at = clock env + 10 * 60 * 1000\<rparr>)]
       \<and> 100000 \<le> \<lfloor>to_double (100000 + to_double (math_random env * 900000))\<rfloor>
       \<and> \<lfloor>to_double (100000 + to_double (math_random env * 900000))\<rfloor> \<le> 999999
       \<and> length (number_toString
                   \<lfloor>to_double (100000 + to_double (math_random env * 900000))\<rfloor>) = 6
       \<and> list_all is_digit (number_toString
                   \<lfloor>to_double (100000 + to_double (math_random env * 900000))\<rfloor>)"
proof -
  let ?match = "\<lambda>(i, u). sql_eq env (u_email u) (body_field b ''email'')
                         \<and> sql_eq env (u_password u) (body_field b ''password'')"
  let ?n = "\<lfloor>to_double (100000 + to_double (math_random env * 900000))\<rfloor>"
  have "(i, u) \<in> set (filter ?match (rows (users w)))"
    using assms(1-3) by simp
  then have found: "filter ?match (rows (users w)) \<noteq> []"
    by (metis empty_iff list.set(1))
  have stored: "rows (user_otps (snd (login env b w)))
           = rows (user_otps w) @
             [(Suc (auto_increment (user_otps w)),
               \<lparr>o_email = body_field b ''email'', o_otp = JStr (number_toString ?n),
                o_expires_at = clock env + 10 * 60 * 1000\<rparr>)]"
    using found assms(7,8)
    by (simp add: login_def Let_def insert_row_def sendMail_def console_log_def)
  note range = otp_range [OF assms(4-6)]
  from range have "100000 \<le> ?n" and "?n \<le> 999999" by simp_all
  then have "length (number_toString ?n) = 6 \<and> list_all is_digit (number_toString ?n)"
    by (rule six_digits)
  with stored range show ?thesis by simp
qed

theorem login_stores_six_digit_code_witness:
  "rows (user_otps (snd (login env_ok login_body world_with_user)))
     = [(1, \<lparr>o_email = JStr ''asha@example.org'', o_otp = JStr ''550000'',
             o_expires_at = 1700000600000\<rparr>)]
   \<and> length ''550000'' = 6 \<and> list_all is_digit ''550000''"
proof -
  have half: "math_random env_ok = 1 / 2"
    by (simp add: env_ok_def)
  have code: "number_toString \<lfloor>to_double (100000 + to_double (math_random env_ok * 900000))\<rfloor>
                = ''550000''"
    unfolding half otp_of_half
    by (simp add: number_toString_def digits10.simps digit_char_def)
  from login_stores_six_digit_code [of 1 asha world_with_user env_ok login_body]
  show ?thesis
    unfolding code
    using half_is_double
    by (simp add: world_with_user_def empty_world_def env_ok_def same_value_def asha_def
        login_body_def body_field_def)
qed

subsection \<open>Verify-otp\<close>

lemma filter_nonempty: "x \<in> set xs \<Longrightarrow> P x \<Longrightarrow> filter P xs \<noteq> []"
  by (induction xs) auto

lemma filter_conj_not_empty: "filter (\<lambda>x. P x \<and> Q x) (filter (\<lambda>x. \<not> P x) xs) = []"
  by (induction xs) auto

text \<open>What the handler does on a match, when the store accepts its three statements.\<close>

lemma verify_otp_success:
  assumes "(i, r) \<in> set (rows (user_otps w))"
    and "sql_eq env (o_email r) (body_field b ''email'')"
    and "sql_eq env (o_otp r) (body_field b ''otp'')"
    and "clock env < o_expires_at r"
    and "\<not> query_fails env SelectOtp" and "\<not> query_fails env DeleteOtps"
    and "\<not> query_fails env SelectUserByEmail"
  shows "verify_otp env b w =
          (res_json 200
             [(''message'', JStr ''Login successful''), (''token'', JStr ''FAKE-JWT-TOKEN''),
              (''user'', case filter (\<lambda>(i, u). sql_eq env (u_email u) (body_field b ''email''))
                                (rows (users w)) of
                           [] \<Rightarrow> JUndefined | r # _ \<Rightarrow> user_row_json r)],
           w\<lparr>user_otps := (user_otps w)
               \<lparr>rows := filter (\<lambda>(i, r). \<not> sql_eq env (o_email r) (body_field b ''email''))
                          (rows (user_otps w))\<rparr>\<rparr>)"
proof -
  let ?match = "\<lambda>(i, r). sql_eq env (o_email r) (body_field b ''email'')
                         \<and> sql_eq env (o_otp r) (body_field b ''otp'')
                         \<and> o_expires_at r > clock env"
  have "?match (i, r)" using assms(2-4) by simp
  with assms(1) have "filter ?match (rows (user_otps w)) \<noteq> []"
    by (rule filter_nonempty)
  with assms(5-7) show ?thesis
    by (simp add: verify_otp_def Let_def)
qed

lemma verify_otp_no_match:
  assumes "filter (\<lambda>(i, r). sql_eq env (o_email r) (body_field b ''email'')
                           \<and> sql_eq env (o_otp r) (body_field b ''otp'')
                           \<and> o_expires_at r > clock env) (rows (user_otps w)) = []"
    and "\<not> query_fails env SelectOtp"
  shows "verify_otp env b w = (res_json 400 [(''message'', JStr ''Invalid or expired OTP'')], w)"
  using assms by (simp add: verify_otp_def Let_def)

text \<open>
  C3. Given a stored code that has not expired, a verify-otp request with the matching
  email and code, whose statements the store accepts, succeeds (200) and deletes every
  OTP row of that email. A second verification with the same email and code, at any
  time, is then answered 400 and changes nothing, so that every later one is answered
  400 as well: the code verifies exactly once.
\<close>

theorem verify_otp_exactly_once:
  assumes "(i, r) \<in> set (rows (user_otps w))"
    and "sql_eq env (o_email r) (body_field b ''email'')"
    and "sql_eq env (o_otp r) (body_field b ''otp'')"
    and "clock env < o_expires_at r"
    and "\<not> query_fails env SelectOtp" and "\<not> query_fails env DeleteOtps"
    and "\<not> query_fails env SelectUserByEmail"
    and "body_field b' ''email'' = body_field b ''email''"
    and "body_field b' ''otp'' = body_field b ''otp''"
    and "sql_eq env' = sql_eq env" and "\<not> query_fails env' SelectOtp"
  shows "status_code (fst (verify_otp env b w)) = 200
       \<and> filter (\<lambda>(i, r). sql_eq env (o_email r) (body_field b ''email''))
            (rows (user_otps (snd (verify_otp env b w)))) = []
       \<and> status_code (fst (verify_otp env' b' (snd (verify_otp env b w)))) = 400
       \<and> snd (verify_otp env' b' (snd (verify_otp env b w))) = snd (verify_otp env b w)"
proof -
  let ?w' = "snd (verify_otp env b w)"
  let ?email = "\<lambda>(i, r). sql_eq env (o_email r) (body_field b ''email'')"
  note first = verify_otp_success [OF assms(1-7)]
  have deleted: "rows (user_otps ?w') = filter (\<lambda>x. \<not> ?email x) (rows (user_otps w))"
    by (simp add: first case_prod_unfold)
  have none: "filter ?email (rows (user_otps ?w')) = []"
    unfolding deleted by (induction "rows (user_otps w)") auto
  have "filter (\<lambda>(i, r). sql_eq env' (o_email r) (body_field b' ''email'')
                         \<and> sql_eq env' (o_otp r) (body_field b' ''otp'')
                         \<and> o_expires_at r > clock env') (rows (user_otps ?w')) = []"
    unfolding deleted assms(8-10)
    using filter_conj_not_empty
      [of ?email "\<lambda>(i, r). sql_eq env (o_otp r) (body_field b ''otp'') \<and> o_expires_at r > clock env'"
          "rows (user_otps w)"]
    by (simp add: case_prod_unfold)
  then have second: "verify_otp env' b' ?w'
      = (res_json 400 [(''message'', JStr ''Invalid or expired OTP'')], ?w')"
    using assms(11) by (rule verify_otp_no_match)
  show ?thesis
    using none by (simp add: second) (simp add: first res_json_def)
qed

theorem verify_otp_exactly_once_witness:
  "status_code (fst (verify_otp env_ok verify_body world_live_code)) = 200
   \<and> rows (user_otps (snd (verify_otp env_ok verify_body world_live_code))) = []
   \<and> status_code (fst (verify_otp env_ok verify_body
         (snd (verify_otp env_ok verify_body world_live_code)))) = 400"
proof -
  have w': "rows (user_otps (snd (verify_otp env_ok verify_body world_live_code))) = []"
    by (simp add: verify_otp_def Let_def world_live_code_def world_with_user_def
        empty_world_def env_ok_def same_value_def live_code_def verify_body_def body_field_def)
  from verify_otp_exactly_once
    [of 1 live_code world_live_code env_ok verify_body verify_body env_ok]
  show ?thesis
    using w'
    by (simp add: world_live_code_def world_with_user_def empty_world_def env_ok_def
        same_value_def live_code_def verify_body_def body_field_def)
qed

text \<open>
  C4. The claim fails where the same email and code are stored twice, once expired and
  once live (codes accumulate per email, and two logins may draw the same code): the
  request matches the live row, is answered 200, and the delete removes the expired row
  with the others.
\<close>

theorem verify_otp_expired_counterexample:
  "(1, expired_code) \<in> set (rows (user_otps world_both_codes))
   \<and> o_email expired_code = body_field verify_body ''email''
   \<and> o_otp expired_code = body_field verify_body ''otp''
   \<and> o_expires_at expired_code < clock env_ok
   \<and> status_code (fst (verify_otp env_ok verify_body world_both_codes)) = 200
   \<and> rows (user_otps (snd (verify_otp env_ok verify_body world_both_codes))) = []"
  by (simp add: verify_otp_def Let_def world_both_codes_def world_with_user_def
      empty_world_def env_ok_def same_value_def live_code_def expired_code_def
      verify_body_def body_field_def res_json_def)

text \<open>
  C4, amended. When every stored row with the request's email and code has expired
  (none of them is live), and the store accepts the select, the request is answered
  400 and the state is unchanged: no row is deleted, the expired ones included.
\<close>

theorem verify_otp_expired:
  assumes "\<forall>(i, r) \<in> set (rows (user_otps w)).
             sql_eq env (o_email r) (body_field b ''email'')
             \<and> sql_eq env (o_otp r) (body_field b ''otp'') \<longrightarrow> o_expires_at r \<le> clock env"
    and "\<not> query_fails env SelectOtp"
  shows "verify_otp env b w = (res_json 400 [(''message'', JStr ''Invalid or expired OTP'')], w)"
proof -
  have "filter (\<lambda>(i, r). sql_eq env (o_email r) (body_field b ''email'')
                        \<and> sql_eq env (o_otp r) (body_field b ''otp'')
                        \<and> o_expires_at r > clock env) (rows (user_otps w)) = []"
    using assms(1) by (auto simp: filter_empty_conv)
  then show ?thesis using assms(2) by (rule verify_otp_no_match)
qed

theorem verify_otp_expired_witness:
  "(1, expired_code) \<in> set (rows (user_otps world_expired_code))
   \<and> verify_otp env_ok verify_body world_expired_code
       = (res_json 400 [(''message'', JStr ''Invalid or expired OTP'')], world_expired_code)"
proof -
  have "verify_otp env_ok verify_body world_expired_code
       = (res_json 400 [(''message'', JStr ''Invalid or expired OTP'')], world_expired_code)"
    by (rule verify_otp_expired)
      (simp_all add: world_expired_code_def world_with_user_def empty_world_def env_ok_def
        expired_code_def)
  then show ?thesis
    by (simp add: world_expired_code_def world_with_user_def empty_world_def)
qed



subsection \<open>Mentor-apply: the upload\<close>

lemma upper_plain: "c \<in> set ''ABCDEFGHIJKLMNOPQRSTUVWXYZ'' \<Longrightarrow> plain_char c"
  by (auto simp: plain_char_def)

lemma plain_lower_char: "plain_char (lower_char c) \<Longrightarrow> plain_char c"
proof (cases "map_of (zip ''ABCDEFGHIJKLMNOPQRSTUVWXYZ'' ''abcdefghijklmnopqrstuvwxyz'') c")
  case None
  then show "plain_char (lower_char c) \<Longrightarrow> plain_char c" by (simp add: lower_char_def)
next
  case (Some l)
  then have "(c, l) \<in> set (zip ''ABCDEFGHIJKLMNOPQRSTUVWXYZ'' ''abcdefghijklmnopqrstuvwxyz'')"
    by (rule map_of_SomeD)
  then have "c \<in> set ''ABCDEFGHIJKLMNOPQRSTUVWXYZ''" by (rule set_zip_leftD)
  then show "plain_char c" by (rule upper_plain)
qed

lemma plain_toLowerCase: "list_all plain_char (toLowerCase s) \<Longrightarrow> list_all plain_char s"
  by (induction s) (auto simp: toLowerCase_def plain_lower_char)

lemma plain_digit: "is_digit c \<Longrightarrow> plain_char c \<and> c \<noteq> CHR ''.''"
  by (auto simp: is_digit_def plain_char_def)

lemma digits10_not_empty: "digits10 n \<noteq> []"
  by (simp add: digits10.simps [of n])

lemma plain_digits10: "list_all plain_char (digits10 n)"
  using digits10_all_digits [of n] by (induction "digits10 n") (auto simp: list_all_iff plain_digit)

lemma hd_digits10: "hd (digits10 n) \<noteq> CHR ''.''"
  using digits10_all_digits [of n] digits10_not_empty [of n]
  by (cases "digits10 n") (auto simp: plain_digit)

lemma plain_number_toString:
  "number_toString i \<noteq> [] \<and> list_all plain_char (number_toString i)
   \<and> hd (number_toString i) \<noteq> CHR ''.''"
  by (simp add: number_toString_def digits10_not_empty plain_digits10 hd_digits10 plain_char_def)

lemma plain_filename:
  assumes "fileFilter f"
  shows "filename env f \<noteq> [] \<and> list_all plain_char (filename env f)
       \<and> hd (filename env f) \<noteq> CHR ''.''"
proof -
  have "list_all plain_char (toLowerCase (extname (originalname f)))"
    using assms by (auto simp: fileFilter_def plain_char_def)
  then have "list_all plain_char (extname (originalname f))" by (rule plain_toLowerCase)
  with plain_number_toString [of "clock env"] show ?thesis
    by (simp add: filename_def)
qed

lemma express_static_filename:
  assumes "fileFilter f"
  shows "express_static w (''/uploads/'' @ filename env f) = uploads w (filename env f)"
  using plain_filename [OF assms, of env] by (simp add: express_static_def)

lemma extname_virus_exe: "extname ''virus.exe'' = ''.exe''"
  by code_simp

lemma extname_cv_pdf: "extname ''cv.PDF'' = ''.PDF''"
  by code_simp

lemma lower_exe_pdf: "toLowerCase ''.exe'' = ''.exe''" "toLowerCase ''.PDF'' = ''.pdf''"
  by (simp_all add: toLowerCase_def lower_char_def)

lemma filename_cv_pdf:
  "clock env = 1700000000000 \<Longrightarrow>
   filename env \<lparr>originalname = ''cv.PDF'', content = c\<rparr> = ''1700000000000.PDF''"
  by (simp add: filename_def extname_cv_pdf number_toString_def digits10.simps digit_char_def)

text \<open>
  C6. The claim fails on the status: the error of the file filter goes to the
  framework's error handler, which answers 500, not 400.
\<close>

theorem mentor_apply_exe_counterexample:
  "extname ''virus.exe'' = ''.exe''
   \<and> status_code (fst (mentor_apply env_ok exe_request empty_world)) = 500
   \<and> status_code (fst (mentor_apply env_ok exe_request empty_world)) \<noteq> 400"
  by (simp add: mentor_apply_def upload_single_def fileFilter_def extname_virus_exe
      lower_exe_pdf exe_request_def pdf_request_def default_error_handler_def)

text \<open>
  C6, amended. A request whose file has an extension outside \<open>.pdf\<close>, \<open>.doc\<close>, \<open>.docx\<close>
  (compared in lower case) never reaches the route handler: the answer is the
  framework's 500, and the state is unchanged (no row is inserted, no file is stored).
  A request whose file has the extension \<open>.pdf\<close> in any case and fewer than 10 MiB, and
  whose insert the store accepts, is answered 200 with a new row and the \<open>fileUrl\<close>
  \<open>/uploads/\<close> followed by the stored name; the static route answers that URL with the
  bytes of the file.
\<close>

theorem mentor_apply_file_types:
  assumes "req_resume req = Some f"
  shows "(toLowerCase (extname (originalname f)) \<notin> {''.pdf'', ''.doc'', ''.docx''} \<longrightarrow>
            status_code (fst (mentor_apply env req w)) = 500
            \<and> snd (mentor_apply env req w) = w)
       \<and> (toLowerCase (extname (originalname f)) = ''.pdf''
            \<and> length (content f) < 10 * 1024 * 1024
            \<and> \<not> query_fails env InsertMentorApplication \<longrightarrow>
            status_code (fst (mentor_apply env req w)) = 200
            \<and> map_of (payload (fst (mentor_apply env req w))) ''fileUrl''
                = Some (JStr (''/uploads/'' @ filename env f))
            \<and> express_static (snd (mentor_apply env req w)) (''/uploads/'' @ filename env f)
                = Some (content f)
            \<and> map (m_resume \<circ> snd) (rows (mentor_applications (snd (mentor_apply env req w))))
                = map (m_resume \<circ> snd) (rows (mentor_applications w)) @ [filename env f])"
proof (intro conjI impI)
  assume "toLowerCase (extname (originalname f)) \<notin> {''.pdf'', ''.doc'', ''.docx''}"
  then have rejected: "\<not> fileFilter f" by (simp add: fileFilter_def)
  with assms show "status_code (fst (mentor_apply env req w)) = 500"
    by (simp add: mentor_apply_def upload_single_def default_error_handler_def)
  from assms rejected show "snd (mentor_apply env req w) = w"
    by (simp add: mentor_apply_def upload_single_def)
next
  assume pdf: "toLowerCase (extname (originalname f)) = ''.pdf''
            \<and> length (content f) < 10 * 1024 * 1024
            \<and> \<not> query_fails env InsertMentorApplication"
  then have accepted: "fileFilter f" by (simp add: fileFilter_def)
  from pdf have small: "\<not> fileSize < length (content f)" "length (content f) \<noteq> fileSize"
    by (simp_all add: fileSize_def)
  have run: "mentor_apply env req w =
      (res_json 200 [(''success'', JBool True),
                     (''id'', JNum (of_nat (Suc (auto_increment (mentor_applications w))))),
                     (''fileUrl'', JStr (''/uploads/'' @ filename env f))],
       w\<lparr>uploads := (uploads w)(filename env f \<mapsto> content f),
         mentor_applications := snd (insert_row
           \<lparr>m_name = body_field (req_body req) ''name'',
            m_email = body_field (req_body req) ''email'',
            m_phone = body_field (req_body req) ''phone'',
            m_expertise = body_field (req_body req) ''expertise'',
            m_experience = body_field (req_body req) ''experience'',
            m_message = body_field (req_body req) ''message'',
            m_resume = filename env f\<rparr> (mentor_applications w))\<rparr>)"
    using assms accepted small pdf
    by (simp add: mentor_apply_def upload_single_def Let_def insert_row_def)
  show "status_code (fst (mentor_apply env req w)) = 200"
    by (simp add: run res_json_def)
  show "map_of (payload (fst (mentor_apply env req w))) ''fileUrl''
          = Some (JStr (''/uploads/'' @ filename env f))"
    by (simp add: run res_json_def)
  show "express_static (snd (mentor_apply env req w)) (''/uploads/'' @ filename env f)
          = Some (content f)"
    unfolding express_static_filename [OF accepted] by (simp add: run)
  show "map (m_resume \<circ> snd) (rows (mentor_applications (snd (mentor_apply env req w))))
          = map (m_resume \<circ> snd) (rows (mentor_applications w)) @ [filename env f]"
    by (simp add: run insert_row_def Let_def)
qed

theorem mentor_apply_file_types_witness:
  "status_code (fst (mentor_apply env_ok exe_request empty_world)) = 500
   \<and> snd (mentor_apply env_ok exe_request empty_world) = empty_world
   \<and> status_code (fst (mentor_apply env_ok pdf_request empty_world)) = 200
   \<and> map_of (payload (fst (mentor_apply env_ok pdf_request empty_world))) ''fileUrl''
       = Some (JStr ''/uploads/1700000000000.PDF'')
   \<and> express_static (snd (mentor_apply env_ok pdf_request empty_world))
         ''/uploads/1700000000000.PDF'' = Some [37, 80, 68, 70]"
proof -
  have name: "filename env_ok \<lparr>originalname = ''cv.PDF'', content = [37, 80, 68, 70]\<rparr>
                = ''1700000000000.PDF''"
    by (rule filename_cv_pdf) (simp add: env_ok_def)
  from mentor_apply_file_types
      [of exe_request "\<lparr>originalname = ''virus.exe'', content = [77, 90]\<rparr>" env_ok empty_world]
    mentor_apply_file_types
      [of pdf_request "\<lparr>originalname = ''cv.PDF'', content = [37, 80, 68, 70]\<rparr>" env_ok
          empty_world]
  show ?thesis
    unfolding name
    by (simp add: extname_virus_exe extname_cv_pdf lower_exe_pdf exe_request_def
        pdf_request_def env_ok_def)
qed

text \<open>
  C10. The upload middleware writes the accepted file before the handler runs. When the
  insert then fails, the handler answers 500 and removes nothing: the file is in the
  uploads directory, under the name it was stored with, and no row names it.
\<close>

theorem mentor_apply_orphaned_file:
  assumes "req_resume req = Some f" and "fileFilter f"
    and "length (content f) < fileSize"
    and "query_fails env InsertMentorApplication"
  shows "upload_single env (req_resume req) w
           = Inr (Some (filename env f), w\<lparr>uploads := (uploads w)(filename env f \<mapsto> content f)\<rparr>)
       \<and> status_code (fst (mentor_apply env req w)) = 500
       \<and> uploads (snd (mentor_apply env req w)) (filename env f) = Some (content f)
       \<and> express_static (snd (mentor_apply env req w)) (''/uploads/'' @ filename env f)
           = Some (content f)
       \<and> mentor_applications (snd (mentor_apply env req w)) = mentor_applications w"
proof -
  have stored: "upload_single env (req_resume req) w
           = Inr (Some (filename env f), w\<lparr>uploads := (uploads w)(filename env f \<mapsto> content f)\<rparr>)"
    using assms(1-3) by (simp add: upload_single_def)
  have run: "mentor_apply env req w =
      (res_json 500 [(''success'', JBool False), (''message'', JStr ''DB insert failed'')],
       console_log (Caught StoreError)
         (w\<lparr>uploads := (uploads w)(filename env f \<mapsto> content f)\<rparr>))"
    using assms(4) by (simp add: mentor_apply_def stored Let_def)
  have served: "express_static (snd (mentor_apply env req w)) (''/uploads/'' @ filename env f)
           = Some (content f)"
    unfolding express_static_filename [OF assms(2)] by (simp add: run console_log_def)
  show ?thesis
    using stored served by (simp add: run res_json_def console_log_def)
qed

theorem mentor_apply_orphaned_file_witness:
  "status_code (fst (mentor_apply env_insert_fails pdf_request empty_world)) = 500
   \<and> uploads (snd (mentor_apply env_insert_fails pdf_request empty_world)) ''1700000000000.PDF''
       = Some [37, 80, 68, 70]
   \<and> uploads empty_world ''1700000000000.PDF'' = None
   \<and> rows (mentor_applications (snd (mentor_apply env_insert_fails pdf_request empty_world))) = []"
proof -
  have name: "filename env_insert_fails \<lparr>originalname = ''cv.PDF'', content = [37, 80, 68, 70]\<rparr>
                = ''1700000000000.PDF''"
    by (rule filename_cv_pdf) (simp add: env_insert_fails_def env_ok_def)
  from mentor_apply_orphaned_file
      [of pdf_request "\<lparr>originalname = ''cv.PDF'', content = [37, 80, 68, 70]\<rparr>"
          env_insert_fails empty_world]
  show ?thesis
    unfolding name
    by (simp add: extname_cv_pdf lower_exe_pdf pdf_request_def env_insert_fails_def env_ok_def
        fileFilter_def fileSize_def empty_world_def)
qed

subsection \<open>Validation of required fields\<close>

text \<open>
  C7. The claim fails for the handlers that validate nothing: a testimonial request
  with an empty body is not rejected. Where the store accepts the row, it is inserted
  and the answer is 200; where the store rejects it, the answer is 500. It is never 400.
\<close>

theorem validation_counterexample:
  "status_code (fst (post_testimonial env_ok Map.empty empty_world)) = 200
   \<and> rows (testimonials (snd (post_testimonial env_ok Map.empty empty_world)))
       = [(1, \<lparr>t_name = JUndefined, t_role = JUndefined, t_review = JUndefined,
               t_verified = JUndefined\<rparr>)]
   \<and> status_code (fst (post_testimonial env_store_rejects Map.empty empty_world)) = 500"
  by (simp add: post_testimonial_def Let_def insert_row_def res_json_def body_field_def
      env_store_rejects_def env_ok_def empty_world_def)

lemma enroll_rejects_falsy:
  assumes "k \<in> {''name'', ''email'', ''phone'', ''courseId''}" and "\<not> truthy (body_field b k)"
  shows "enroll env b w = (res_json 400 [(''success'', JBool False),
                                        (''message'', JStr ''All fields are required'')], w)"
  using assms by (auto simp: enroll_def Let_def)

lemma register_rejects_falsy:
  assumes "k \<in> {''name'', ''email'', ''phone'', ''workshop''}" and "\<not> truthy (body_field b k)"
  shows "register env b w = (res_json 400 [(''success'', JBool False),
                                          (''message'', JStr ''All fields are required'')], w)"
  using assms by (auto simp: register_def Let_def)

text \<open>
  C7, amended. Enroll rejects a request that lacks name, email, phone or courseId, and
  register one that lacks name, email, phone or workshop, with 400 and the message
  "All fields are required", before any statement: the state is unchanged. Mentor-apply
  rejects a request without a resume file with 400 and "Resume is required", the state
  unchanged. Testimonials and demo-request check no field and never answer 400; signup
  checks no field either, and answers 400 only when a user with the email exists.
\<close>

theorem required_fields_validated:
  "(k \<in> {''name'', ''email'', ''phone'', ''courseId''} \<and> b k = None \<longrightarrow>
      enroll env b w = (res_json 400 [(''success'', JBool False),
                                      (''message'', JStr ''All fields are required'')], w))
   \<and> (k \<in> {''name'', ''email'', ''phone'', ''workshop''} \<and> b k = None \<longrightarrow>
      register env b w = (res_json 400 [(''success'', JBool False),
                                        (''message'', JStr ''All fields are required'')], w))
   \<and> (req_resume req = None \<longrightarrow>
      mentor_apply env req w = (res_json 400 [(''success'', JBool False),
                                              (''message'', JStr ''Resume is required'')], w))
   \<and> status_code (fst (post_testimonial env b w)) \<noteq> 400
   \<and> status_code (fst (demo_request env b w)) \<noteq> 400
   \<and> (status_code (fst (signup env b w)) = 400 \<longrightarrow>
      (\<exists>i u. (i, u) \<in> set (rows (users w)) \<and> sql_eq env (u_email u) (body_field b ''email'')))"
proof (intro conjI impI)
  assume "k \<in> {''name'', ''email'', ''phone'', ''courseId''} \<and> b k = None"
  then have "k \<in> {''name'', ''email'', ''phone'', ''courseId''}" "\<not> truthy (body_field b k)"
    by (simp_all add: body_field_def)
  then show "enroll env b w = (res_json 400 [(''success'', JBool False),
                                      (''message'', JStr ''All fields are required'')], w)"
    by (rule enroll_rejects_falsy)
next
  assume "k \<in> {''name'', ''email'', ''phone'', ''workshop''} \<and> b k = None"
  then have "k \<in> {''name'', ''email'', ''phone'', ''workshop''}" "\<not> truthy (body_field b k)"
    by (simp_all add: body_field_def)
  then show "register env b w = (res_json 400 [(''success'', JBool False),
                                        (''message'', JStr ''All fields are required'')], w)"
    by (rule register_rejects_falsy)
next
  assume "req_resume req = None"
  then show "mentor_apply env req w = (res_json 400 [(''success'', JBool False),
                                              (''message'', JStr ''Resume is required'')], w)"
    by (simp add: mentor_apply_def upload_single_def Let_def)
next
  show "status_code (fst (post_testimonial env b w)) \<noteq> 400"
    by (simp add: post_testimonial_def Let_def insert_row_def res_json_def)
next
  show "status_code (fst (demo_request env b w)) \<noteq> 400"
    by (simp add: demo_request_def Let_def insert_row_def res_json_def sendMail_def)
next
  assume "status_code (fst (signup env b w)) = 400"
  then have "filter (\<lambda>(i, u). sql_eq env (u_email u) (body_field b ''email'')) (rows (users w)) \<noteq> []"
    by (auto simp: signup_def Let_def insert_row_def res_json_def split: if_splits)
  then obtain x where "x \<in> set (rows (users w))"
    and "(\<lambda>(i, u). sql_eq env (u_email u) (body_field b ''email'')) x"
    by (auto simp: filter_empty_conv)
  then show "\<exists>i u. (i, u) \<in> set (rows (users w)) \<and> sql_eq env (u_email u) (body_field b ''email'')"
    by (cases x) auto
qed

theorem required_fields_validated_witness:
  "enroll env_ok (enroll_body(''courseId'' := None)) empty_world
     = (res_json 400 [(''success'', JBool False),
                      (''message'', JStr ''All fields are required'')], empty_world)
   \<and> register env_ok (register_body(''workshop'' := None)) empty_world
     = (res_json 400 [(''success'', JBool False),
                      (''message'', JStr ''All fields are required'')], empty_world)
   \<and> mentor_apply env_ok no_file_request empty_world
     = (res_json 400 [(''success'', JBool False),
                      (''message'', JStr ''Resume is required'')], empty_world)
   \<and> status_code (fst (signup env_ok (login_body(''name'' \<mapsto> JStr ''Asha'')) world_with_user)) = 400
   \<and> (1, asha) \<in> set (rows (users world_with_user))"
  using required_fields_validated
      [of "''courseId''" "enroll_body(''courseId'' := None)" env_ok empty_world no_file_request]
    required_fields_validated
      [of "''workshop''" "register_body(''workshop'' := None)" env_ok empty_world no_file_request]
  by (simp add: no_file_request_def signup_def Let_def res_json_def world_with_user_def
      empty_world_def env_ok_def same_value_def asha_def login_body_def body_field_def)

end
